theory Spec2Isabelle
  imports Main "HOL-Library.Word"
begin

section \<open>cupy/cuda/thrust.pyx: the scratch-memory callbacks and the sort entry points\<close>

text \<open>
  The module is a thin layer between Python callers and the native Thrust routines. It
  holds two C callbacks (\<open>cupy_malloc\<close>, \<open>cupy_free\<close>) working on a per-call
  \<open>_MemoryManager\<close>, and three entry points (\<open>sort\<close>, \<open>lexsort\<close>, \<open>argsort\<close>) that
  pick a native instantiation by comparing the dtype in a chain of \<open>if\<close>/\<open>elif\<close>.

  Everything the module calls but does not define is a parameter of the model: the host
  allocator \<open>memory.alloc\<close> for the callbacks, and for the entry points the stream and
  device queries, the native routines and the constant \<open>THRUST_VERSION\<close>
  (\<open>externals\<close>). A Python exception is a value
  \<open>Inl e\<close>; \<open>Inr v\<close> is a normal return of \<open>v\<close>. The two callbacks are \<open>cdef\<close>
  functions with a C return type and no \<open>except\<close> clause: an exception that leaves
  their body cannot reach the C++ caller, so each is modelled as its body followed by
  the discarding of such an exception. When the runtime finalises an object nobody
  refers to any more is not part of the model.
\<close>

subsection \<open>Values\<close>

text \<open>\<open>char*\<close>, \<open>void*\<close>, \<open>size_t\<close>, \<open>intptr_t\<close> and \<open>ptrdiff_t\<close> are 64 bits wide.\<close>

type_synonym addr = "64 word"

datatype error =
    KeyError nat
  | RuntimeError string
  | NotImplementedError string
  | TypeError string
  | OutOfMemoryError string
  | MemoryError string

text \<open>
  Modelled from the spec: the class \<open>MemoryPointer\<close> of \<open>cupy.cuda.memory\<close>, which
  \<open>memory.alloc\<close> returns, is declared outside this file. The file reads only its
  \<open>ptr\<close>; the spec describes the object as an owned buffer with an address and a size.
\<close>

record MemoryPointer =
  ptr :: addr
  nbytes :: "64 word"

text \<open>\<open>cdef class _MemoryManager\<close>: one attribute, the dict \<open>memory\<close> from address to allocation.\<close>

record MemoryManager =
  memory :: "addr \<rightharpoonup> MemoryPointer"

definition MemoryManager_init :: MemoryManager where
  "MemoryManager_init = \<lparr>memory = Map.empty\<rparr>"

subsection \<open>The world outside the module\<close>

datatype ctype =
    cpy_byte | cpy_ubyte | cpy_short | cpy_ushort | cpy_int | cpy_uint
  | cpy_long | cpy_ulong | cpy_float | cpy_double
  | cpy_complex64 | cpy_complex128 | cpy_bool

text \<open>
  A native routine is either the template instantiated at a C type (\<open>_sort[T]\<close>) or the
  separate half-precision function (\<open>_sort_fp16\<close>).
\<close>

datatype backend_inst = generic ctype | fp16

text \<open>
  The native calls with their arguments, in the order of the \<open>extern\<close> declarations; the
  last argument of each, the pointer to the memory manager, is passed beside the call.
\<close>

datatype native_call =
    Sort backend_inst addr addr "64 word list" "64 word"
  | Lexsort backend_inst addr addr "64 word" "64 word" "64 word"
  | Argsort backend_inst addr addr addr "64 word list" "64 word"

text \<open>The calls that leave the module, in the order they are made.\<close>

datatype event =
    StreamQuery
  | CapabilityQuery
  | RuntimeVersionQuery
  | AllocCall "64 word"
  | NativeCall native_call

record 'a world =
  events :: "event list"
  allocator :: 'a

text \<open>
  The collaborators of the entry points. \<open>compute_capability\<close> is the value of
  \<open>int(device.get_compute_capability())\<close>. \<open>native\<close> is what a native routine does
  when it is given the memory manager: any change of the world, and an optional error.
\<close>

record 'a externals =
  current_stream_ptr :: "64 word"
  compute_capability :: int
  runtime_version :: int
  THRUST_VERSION :: "32 word"
  native :: "native_call \<Rightarrow> MemoryManager \<Rightarrow> 'a world \<Rightarrow> error option \<times> 'a world"

definition log :: "event \<Rightarrow> 'a world \<Rightarrow> 'a world" where
  "log e w = w\<lparr>events := events w @ [e]\<rparr>"

text \<open>
  The host allocator \<open>memory.alloc\<close> is a parameter \<open>alloc\<close> of the callbacks: from
  the allocator's state and a size it raises or returns an allocation, and leaves a new
  state. A call of it is logged.
\<close>

type_synonym 'a allocate = "'a \<Rightarrow> 64 word \<Rightarrow> (error + MemoryPointer) \<times> 'a"

definition memory_alloc ::
  "'a allocate \<Rightarrow> 64 word \<Rightarrow> 'a world \<Rightarrow> (error + MemoryPointer) \<times> 'a world" where
  "memory_alloc alloc n w =
     (case alloc (allocator w) n of
        (r, a') \<Rightarrow> (r, (log (AllocCall n) w)\<lparr>allocator := a'\<rparr>))"

subsection \<open>Memory management (lines 24 to 45)\<close>

text \<open>
  \<^verbatim>\<open>
  cdef public char* cupy_malloc(void *m, size_t size) with gil:
      if size == 0:
          return <char *>0
      cdef _MemoryManager mm = <_MemoryManager>m
      mem = memory.alloc(size)
      mm.memory[mem.ptr] = mem
      return <char *>mem.ptr
  \<close>
  The manager behind \<open>m\<close> is passed in and returned. First the statements of the
  body, where \<open>memory.alloc\<close> may raise.
\<close>

definition cupy_malloc_body ::
  "'a allocate \<Rightarrow> 64 word \<Rightarrow> 'a world \<times> MemoryManager
     \<Rightarrow> (error + addr) \<times> ('a world \<times> MemoryManager)" where
  "cupy_malloc_body alloc n s =
     (case s of (w, mm) \<Rightarrow>
        if n = 0 then (Inr 0, (w, mm))
        else (case memory_alloc alloc n w of
                (Inl e, w') \<Rightarrow> (Inl e, (w', mm))
              | (Inr mem, w') \<Rightarrow>
                  (Inr (ptr mem), (w', mm\<lparr>memory := (memory mm)(ptr mem \<mapsto> mem)\<rparr>))))"

text \<open>
  \<^verbatim>\<open>
  cdef public void cupy_free(void *m, char* ptr) with gil:
      if ptr == <char *>0:
          return
      cdef _MemoryManager mm = <_MemoryManager>m
      del mm.memory[<size_t>ptr]
  \<close>
  \<open>del d[k]\<close> raises \<open>KeyError(k)\<close> when \<open>k\<close> is not a key of \<open>d\<close>.
\<close>

definition cupy_free_body ::
  "addr \<Rightarrow> 'a world \<times> MemoryManager \<Rightarrow> (error + unit) \<times> ('a world \<times> MemoryManager)" where
  "cupy_free_body p s =
     (case s of (w, mm) \<Rightarrow>
        if p = 0 then (Inr (), (w, mm))
        else (case memory mm p of
                None \<Rightarrow> (Inl (KeyError (unat p)), (w, mm))
              | Some mem \<Rightarrow> (Inr (), (w, mm\<lparr>memory := (memory mm)(p := None)\<rparr>))))"

text \<open>
  Both functions are declared \<open>cdef public\<close> with a C return type (\<open>char*\<close>, \<open>void\<close>)
  and no \<open>except\<close> clause. Such a function has no way to hand a Python exception to
  its caller: an exception that leaves the body is discarded (the runtime prints it as an
  ignored exception, which the world does not record) and the function returns the zero
  value of its return type. The state is the one the body left.
\<close>

definition no_except :: "'b \<Rightarrow> (error + 'b) \<times> 's \<Rightarrow> 'b \<times> 's" where
  "no_except dflt r = (case r of (Inl e, s) \<Rightarrow> (dflt, s) | (Inr v, s) \<Rightarrow> (v, s))"

definition cupy_malloc ::
  "'a allocate \<Rightarrow> 64 word \<Rightarrow> 'a world \<times> MemoryManager
     \<Rightarrow> addr \<times> ('a world \<times> MemoryManager)" where
  "cupy_malloc alloc n s = no_except 0 (cupy_malloc_body alloc n s)"

definition cupy_free ::
  "addr \<Rightarrow> 'a world \<times> MemoryManager \<Rightarrow> unit \<times> ('a world \<times> MemoryManager)" where
  "cupy_free p s = no_except () (cupy_free_body p s)"

subsection \<open>Sequences of callback calls\<close>

text \<open>
  The native routines reach the manager only through the two callbacks. A sequence of
  such calls on one manager is run in order. The record of a run keeps, for each call,
  \<open>Inr\<close> of what it returned or \<open>Inl\<close> of the exception that was discarded in it;
  the state after a call is the state after the callback.
\<close>

datatype callback = Malloc "64 word" | Free addr

datatype answer = Address addr | Nothing

definition call ::
  "'a allocate \<Rightarrow> callback \<Rightarrow> 'a world \<times> MemoryManager
     \<Rightarrow> (error + answer) \<times> ('a world \<times> MemoryManager)" where
  "call alloc c s =
     (case c of
        Malloc n \<Rightarrow>
          (case cupy_malloc_body alloc n s of (r, s') \<Rightarrow> (map_sum id Address r, s'))
      | Free p \<Rightarrow>
          (case cupy_free_body p s of (r, s') \<Rightarrow> (map_sum id (\<lambda>u. Nothing) r, s')))"

fun run ::
  "'a allocate \<Rightarrow> callback list \<Rightarrow> 'a world \<times> MemoryManager
     \<Rightarrow> (callback \<times> (error + answer)) list \<times> ('a world \<times> MemoryManager)" where
  "run alloc [] s = ([], s)"
| "run alloc (c # cs) s =
     (case call alloc c s of (r, s') \<Rightarrow>
        (case run alloc cs s' of (tr, s'') \<Rightarrow> ((c, r) # tr, s'')))"

text \<open>
  The addresses \<open>cupy_malloc\<close> returned (the null address when an exception was
  discarded in it), and the addresses \<open>cupy_free\<close> was called with when no exception
  was discarded in it.
\<close>

fun returned :: "(callback \<times> (error + answer)) list \<Rightarrow> addr list" where
  "returned [] = []"
| "returned (x # tr) =
     (case x of
        (Malloc n, Inr (Address p)) \<Rightarrow> p # returned tr
      | (Malloc n, Inl e) \<Rightarrow> 0 # returned tr
      | _ \<Rightarrow> returned tr)"

fun freed :: "(callback \<times> (error + answer)) list \<Rightarrow> addr list" where
  "freed [] = []"
| "freed (x # tr) =
     (case x of (Free p, Inr r) \<Rightarrow> p # freed tr | _ \<Rightarrow> freed tr)"

subsection \<open>Python interface (lines 77 to 240)\<close>

text \<open>
  The dtype argument is compared with \<open>numpy.int8\<close>, \<open>numpy.uint8\<close>, ... in turn. A
  descriptor equal to one of the fourteen is that tag; any other descriptor is
  \<open>unsupported\<close>, carrying the text \<open>format\<close> prints for it.
\<close>

datatype TypeTag =
    int8 | uint8 | int16 | uint16 | int32 | uint32 | int64 | uint64
  | float16 | float32 | float64 | complex64 | complex128 | bool

datatype dtype = numpy TypeTag | unsupported string

fun tag_name :: "TypeTag \<Rightarrow> string" where
  "tag_name int8 = ''int8''"
| "tag_name uint8 = ''uint8''"
| "tag_name int16 = ''int16''"
| "tag_name uint16 = ''uint16''"
| "tag_name int32 = ''int32''"
| "tag_name uint32 = ''uint32''"
| "tag_name int64 = ''int64''"
| "tag_name uint64 = ''uint64''"
| "tag_name float16 = ''float16''"
| "tag_name float32 = ''float32''"
| "tag_name float64 = ''float64''"
| "tag_name complex64 = ''complex64''"
| "tag_name complex128 = ''complex128''"
| "tag_name bool = ''bool''"

definition format_dtype :: "dtype \<Rightarrow> string" where
  "format_dtype d = (case d of numpy t \<Rightarrow> tag_name t | unsupported s \<Rightarrow> s)"

definition quoted :: "string \<Rightarrow> string" where
  "quoted s = [CHR 0x27] @ s @ [CHR 0x27]"

definition get_current_stream_ptr :: "'a externals \<Rightarrow> 'a world \<Rightarrow> 64 word \<times> 'a world" where
  "get_current_stream_ptr X w = (current_stream_ptr X, log StreamQuery w)"

definition get_compute_capability :: "'a externals \<Rightarrow> 'a world \<Rightarrow> int \<times> 'a world" where
  "get_compute_capability X w = (compute_capability X, log CapabilityQuery w)"

definition runtimeGetVersion :: "'a externals \<Rightarrow> 'a world \<Rightarrow> int \<times> 'a world" where
  "runtimeGetVersion X w = (runtime_version X, log RuntimeVersionQuery w)"

text \<open>A call of a native routine: it is logged, then the routine runs; its error, if any, is the call's.\<close>

definition call_native ::
  "'a externals \<Rightarrow> native_call \<Rightarrow> MemoryManager \<Rightarrow> 'a world \<Rightarrow> (error + unit) \<times> 'a world" where
  "call_native X c mem w =
     (case native X c mem (log (NativeCall c) w) of
        (None, w') \<Rightarrow> (Inr (), w')
      | (Some e, w') \<Rightarrow> (Inl e, w'))"

text \<open>
  \<^verbatim>\<open>
  def get_build_version():
      return THRUST_VERSION
  \<close>
  \<open>THRUST_VERSION\<close> is a C \<open>int\<close>; the Python integer returned is its signed value.
\<close>

definition get_build_version :: "'a externals \<Rightarrow> 'a world \<Rightarrow> (error + int) \<times> 'a world" where
  "get_build_version X w = (Inr (sint (THRUST_VERSION X)), w)"

text \<open>
  The half-precision check, the same five lines in \<open>sort\<close>, \<open>lexsort\<close> and \<open>argsort\<close>:
  \<^verbatim>\<open>
  if dtype == numpy.float16:
      if int(device.get_compute_capability()) < 53 or \
              runtime.runtimeGetVersion() < 9020:
          raise RuntimeError('either the GPU or the CUDA Toolkit does not '
                             'support fp16')
  \<close>
  \<open>or\<close> does not evaluate its right operand when the left one is true.
\<close>

definition fp16_unsupported :: error where
  "fp16_unsupported = RuntimeError ''either the GPU or the CUDA Toolkit does not support fp16''"

definition fp16_check :: "'a externals \<Rightarrow> dtype \<Rightarrow> 'a world \<Rightarrow> (error + unit) \<times> 'a world" where
  "fp16_check X dtype w =
     (if dtype = numpy float16 then
        (case get_compute_capability X w of (cc, w1) \<Rightarrow>
           if cc < 53 then (Inl fp16_unsupported, w1)
           else (case runtimeGetVersion X w1 of (rv, w2) \<Rightarrow>
                   if rv < 9020 then (Inl fp16_unsupported, w2) else (Inr (), w2)))
      else (Inr (), w))"

text \<open>The chain of \<open>sort\<close>, lines 96 to 128.\<close>

definition sort_dispatch ::
  "'a externals \<Rightarrow> dtype \<Rightarrow> addr \<Rightarrow> addr \<Rightarrow> 64 word list \<Rightarrow> 64 word \<Rightarrow> MemoryManager
     \<Rightarrow> 'a world \<Rightarrow> (error + unit) \<times> 'a world" where
  "sort_dispatch X dtype data_start keys_start shape strm mem w =
     (if dtype = numpy int8 then call_native X (Sort (generic cpy_byte) data_start keys_start shape strm) mem w
      else if dtype = numpy uint8 then call_native X (Sort (generic cpy_ubyte) data_start keys_start shape strm) mem w
      else if dtype = numpy int16 then call_native X (Sort (generic cpy_short) data_start keys_start shape strm) mem w
      else if dtype = numpy uint16 then call_native X (Sort (generic cpy_ushort) data_start keys_start shape strm) mem w
      else if dtype = numpy int32 then call_native X (Sort (generic cpy_int) data_start keys_start shape strm) mem w
      else if dtype = numpy uint32 then call_native X (Sort (generic cpy_uint) data_start keys_start shape strm) mem w
      else if dtype = numpy int64 then call_native X (Sort (generic cpy_long) data_start keys_start shape strm) mem w
      else if dtype = numpy uint64 then call_native X (Sort (generic cpy_ulong) data_start keys_start shape strm) mem w
      else if dtype = numpy float16 then call_native X (Sort fp16 data_start keys_start shape strm) mem w
      else if dtype = numpy float32 then call_native X (Sort (generic cpy_float) data_start keys_start shape strm) mem w
      else if dtype = numpy float64 then call_native X (Sort (generic cpy_double) data_start keys_start shape strm) mem w
      else if dtype = numpy complex64 then call_native X (Sort (generic cpy_complex64) data_start keys_start shape strm) mem w
      else if dtype = numpy complex128 then call_native X (Sort (generic cpy_complex128) data_start keys_start shape strm) mem w
      else if dtype = numpy bool then call_native X (Sort (generic cpy_bool) data_start keys_start shape strm) mem w
      else (Inl (NotImplementedError (''Sorting arrays with dtype '' @ quoted (format_dtype dtype) @ '' is not supported'')), w))"

text \<open>
  \<open>sort\<close> (the name \<open>sort\<close> is taken by the list library): the stream pointer is
  read, a new manager is made, the half-precision check runs and the chain follows.
\<close>

definition sort_thrust ::
  "'a externals \<Rightarrow> dtype \<Rightarrow> addr \<Rightarrow> addr \<Rightarrow> 64 word list \<Rightarrow> 'a world
     \<Rightarrow> (error + unit) \<times> 'a world" where
  "sort_thrust X dtype data_start keys_start shape w =
     (case get_current_stream_ptr X w of (strm, w1) \<Rightarrow>
        (let mem_obj = MemoryManager_init in
         case fp16_check X dtype w1 of
           (Inl e, w2) \<Rightarrow> (Inl e, w2)
         | (Inr u, w2) \<Rightarrow> sort_dispatch X dtype data_start keys_start shape strm mem_obj w2))"

text \<open>The chain of \<open>lexsort\<close>, lines 146 to 176.\<close>

definition lexsort_dispatch ::
  "'a externals \<Rightarrow> dtype \<Rightarrow> addr \<Rightarrow> addr \<Rightarrow> 64 word \<Rightarrow> 64 word \<Rightarrow> 64 word \<Rightarrow> MemoryManager
     \<Rightarrow> 'a world \<Rightarrow> (error + unit) \<times> 'a world" where
  "lexsort_dispatch X dtype idx_ptr keys_ptr k n strm mem w =
     (if dtype = numpy int8 then call_native X (Lexsort (generic cpy_byte) idx_ptr keys_ptr k n strm) mem w
      else if dtype = numpy uint8 then call_native X (Lexsort (generic cpy_ubyte) idx_ptr keys_ptr k n strm) mem w
      else if dtype = numpy int16 then call_native X (Lexsort (generic cpy_short) idx_ptr keys_ptr k n strm) mem w
      else if dtype = numpy uint16 then call_native X (Lexsort (generic cpy_ushort) idx_ptr keys_ptr k n strm) mem w
      else if dtype = numpy int32 then call_native X (Lexsort (generic cpy_int) idx_ptr keys_ptr k n strm) mem w
      else if dtype = numpy uint32 then call_native X (Lexsort (generic cpy_uint) idx_ptr keys_ptr k n strm) mem w
      else if dtype = numpy int64 then call_native X (Lexsort (generic cpy_long) idx_ptr keys_ptr k n strm) mem w
      else if dtype = numpy uint64 then call_native X (Lexsort (generic cpy_ulong) idx_ptr keys_ptr k n strm) mem w
      else if dtype = numpy float16 then call_native X (Lexsort fp16 idx_ptr keys_ptr k n strm) mem w
      else if dtype = numpy float32 then call_native X (Lexsort (generic cpy_float) idx_ptr keys_ptr k n strm) mem w
      else if dtype = numpy float64 then call_native X (Lexsort (generic cpy_double) idx_ptr keys_ptr k n strm) mem w
      else if dtype = numpy complex64 then call_native X (Lexsort (generic cpy_complex64) idx_ptr keys_ptr k n strm) mem w
      else if dtype = numpy complex128 then call_native X (Lexsort (generic cpy_complex128) idx_ptr keys_ptr k n strm) mem w
      else if dtype = numpy bool then call_native X (Lexsort (generic cpy_bool) idx_ptr keys_ptr k n strm) mem w
      else (Inl (TypeError (''Sorting keys with dtype '' @ quoted (format_dtype dtype) @ '' is not supported'')), w))"

definition lexsort ::
  "'a externals \<Rightarrow> dtype \<Rightarrow> addr \<Rightarrow> addr \<Rightarrow> 64 word \<Rightarrow> 64 word \<Rightarrow> 'a world
     \<Rightarrow> (error + unit) \<times> 'a world" where
  "lexsort X dtype idx_start keys_start k n w =
     (case get_current_stream_ptr X w of (strm, w1) \<Rightarrow>
        (let mem_obj = MemoryManager_init in
         case fp16_check X dtype w1 of
           (Inl e, w2) \<Rightarrow> (Inl e, w2)
         | (Inr u, w2) \<Rightarrow> lexsort_dispatch X dtype idx_start keys_start k n strm mem_obj w2))"

text \<open>The chain of \<open>argsort\<close>, lines 196 to 240.\<close>

definition argsort_dispatch ::
  "'a externals \<Rightarrow> dtype \<Rightarrow> addr \<Rightarrow> addr \<Rightarrow> addr \<Rightarrow> 64 word list \<Rightarrow> 64 word \<Rightarrow> MemoryManager
     \<Rightarrow> 'a world \<Rightarrow> (error + unit) \<times> 'a world" where
  "argsort_dispatch X dtype idx_start data_start keys_start shape strm mem w =
     (if dtype = numpy int8 then call_native X (Argsort (generic cpy_byte) idx_start data_start keys_start shape strm) mem w
      else if dtype = numpy uint8 then call_native X (Argsort (generic cpy_ubyte) idx_start data_start keys_start shape strm) mem w
      else if dtype = numpy int16 then call_native X (Argsort (generic cpy_short) idx_start data_start keys_start shape strm) mem w
      else if dtype = numpy uint16 then call_native X (Argsort (generic cpy_ushort) idx_start data_start keys_start shape strm) mem w
      else if dtype = numpy int32 then call_native X (Argsort (generic cpy_int) idx_start data_start keys_start shape strm) mem w
      else if dtype = numpy uint32 then call_native X (Argsort (generic cpy_uint) idx_start data_start keys_start shape strm) mem w
      else if dtype = numpy int64 then call_native X (Argsort (generic cpy_long) idx_start data_start keys_start shape strm) mem w
      else if dtype = numpy uint64 then call_native X (Argsort (generic cpy_ulong) idx_start data_start keys_start shape strm) mem w
      else if dtype = numpy float16 then call_native X (Argsort fp16 idx_start data_start keys_start shape strm) mem w
      else if dtype = numpy float32 then call_native X (Argsort (generic cpy_float) idx_start data_start keys_start shape strm) mem w
      else if dtype = numpy float64 then call_native X (Argsort (generic cpy_double) idx_start data_start keys_start shape strm) mem w
      else if dtype = numpy complex64 then call_native X (Argsort (generic cpy_complex64) idx_start data_start keys_start shape strm) mem w
      else if dtype = numpy complex128 then call_native X (Argsort (generic cpy_complex128) idx_start data_start keys_start shape strm) mem w
      else if dtype = numpy bool then call_native X (Argsort (generic cpy_bool) idx_start data_start keys_start shape strm) mem w
      else (Inl (NotImplementedError (''Sorting arrays with dtype '' @ quoted (format_dtype dtype) @ '' is not supported'')), w))"

definition argsort ::
  "'a externals \<Rightarrow> dtype \<Rightarrow> addr \<Rightarrow> addr \<Rightarrow> addr \<Rightarrow> 64 word list \<Rightarrow> 'a world
     \<Rightarrow> (error + unit) \<times> 'a world" where
  "argsort X dtype idx_start data_start keys_start shape w =
     (case get_current_stream_ptr X w of (strm, w1) \<Rightarrow>
        (let mem_obj = MemoryManager_init in
         case fp16_check X dtype w1 of
           (Inl e, w2) \<Rightarrow> (Inl e, w2)
         | (Inr u, w2) \<Rightarrow>
             argsort_dispatch X dtype idx_start data_start keys_start shape strm mem_obj w2))"

subsection \<open>The instantiation each tag stands for\<close>

text \<open>
  The table the dispatch is compared with: the C type of the same kind and width for
  each tag, and the half-precision routine for \<open>float16\<close>.
\<close>

fun instantiation_of :: "TypeTag \<Rightarrow> backend_inst" where
  "instantiation_of int8 = generic cpy_byte"
| "instantiation_of uint8 = generic cpy_ubyte"
| "instantiation_of int16 = generic cpy_short"
| "instantiation_of uint16 = generic cpy_ushort"
| "instantiation_of int32 = generic cpy_int"
| "instantiation_of uint32 = generic cpy_uint"
| "instantiation_of int64 = generic cpy_long"
| "instantiation_of uint64 = generic cpy_ulong"
| "instantiation_of float16 = fp16"
| "instantiation_of float32 = generic cpy_float"
| "instantiation_of float64 = generic cpy_double"
| "instantiation_of complex64 = generic cpy_complex64"
| "instantiation_of complex128 = generic cpy_complex128"
| "instantiation_of bool = generic cpy_bool"

subsection \<open>Fixtures for concrete runs\<close>

text \<open>
  A bump allocator: the state is the next free address; a request larger than 4096 bytes
  raises.
\<close>

definition bump_alloc :: "addr \<Rightarrow> 64 word \<Rightarrow> (error + MemoryPointer) \<times> addr" where
  "bump_alloc a n =
     (if 4096 < n then (Inl (OutOfMemoryError ''out of memory''), a)
      else (Inr \<lparr>ptr = a, nbytes = n\<rparr>, a + n))"

text \<open>
  A native routine that takes one scratch buffer of 64 bytes through the callbacks and
  gives it back.
\<close>

definition scratch_native ::
  "native_call \<Rightarrow> MemoryManager \<Rightarrow> addr world \<Rightarrow> error option \<times> addr world" where
  "scratch_native c mm w =
     (None, fst (snd (run bump_alloc [Malloc 64, Free (allocator w)] (w, mm))))"

text \<open>A native routine that fails at once.\<close>

definition failing_native ::
  "native_call \<Rightarrow> MemoryManager \<Rightarrow> addr world \<Rightarrow> error option \<times> addr world" where
  "failing_native c mm w = (Some (MemoryError ''std::bad_alloc''), w)"

definition sample_externals :: "int \<Rightarrow> int \<Rightarrow> addr externals" where
  "sample_externals cc rv =
     \<lparr>current_stream_ptr = 7, compute_capability = cc, runtime_version = rv,
      THRUST_VERSION = 100909, native = scratch_native\<rparr>"

definition sample_world :: "addr world" where
  "sample_world = \<lparr>events = [], allocator = 4096\<rparr>"

section \<open>Properties\<close>

subsection \<open>The callbacks\<close>

text \<open>
  C5. Whatever the state of the manager, \<open>cupy_malloc\<close> with size 0 returns the null
  address, makes no call to the external allocator and leaves the map as it was: the
  state comes back untouched for every allocator, with no \<open>AllocCall\<close> logged.
\<close>

theorem cupy_malloc_zero:
  "cupy_malloc alloc 0 (w, mm) = (0, (w, mm))"
  by (simp add: cupy_malloc_def cupy_malloc_body_def no_except_def)

text \<open>
  C6. For a size other than 0, \<open>cupy_malloc\<close> calls the external allocator with that
  size; when the allocator returns an allocation \<open>mem\<close>, the map gets the entry
  \<open>ptr mem \<mapsto> mem\<close> and the address returned is \<open>ptr mem\<close>, the key just written.
\<close>

theorem cupy_malloc_records:
  assumes "n \<noteq> 0" and "alloc (allocator w) n = (Inr mem, a')"
  shows "cupy_malloc alloc n (w, mm) =
           (ptr mem,
            (w\<lparr>events := events w @ [AllocCall n], allocator := a'\<rparr>,
             mm\<lparr>memory := (memory mm)(ptr mem \<mapsto> mem)\<rparr>))
         \<and> memory (snd (snd (cupy_malloc alloc n (w, mm)))) (ptr mem) = Some mem"
  using assms
  by (simp add: cupy_malloc_def cupy_malloc_body_def no_except_def memory_alloc_def log_def)

theorem cupy_malloc_records_witness:
  "(16 :: 64 word) \<noteq> 0
   \<and> bump_alloc (allocator sample_world) 16
       = (Inr \<lparr>ptr = 4096, nbytes = 16\<rparr>, 4112)
   \<and> fst (cupy_malloc bump_alloc 16 (sample_world, MemoryManager_init))
       = 4096
   \<and> memory (snd (snd (cupy_malloc bump_alloc 16
               (sample_world, MemoryManager_init)))) 4096
       = Some \<lparr>ptr = 4096, nbytes = 16\<rparr>
   \<and> events (fst (snd (cupy_malloc bump_alloc 16
               (sample_world, MemoryManager_init))))
       = [AllocCall 16]"
proof -
  have n: "(16 :: 64 word) \<noteq> 0" by simp
  have a: "bump_alloc (allocator sample_world) 16
             = (Inr \<lparr>ptr = 4096, nbytes = 16\<rparr>, 4112)"
    by (simp add: sample_world_def bump_alloc_def)
  show ?thesis
    using n a cupy_malloc_records [where alloc = bump_alloc and w = sample_world
            and mm = MemoryManager_init, OF n a]
    by (simp add: sample_world_def)
qed

text \<open>
  C10, as the spec has it: for a size other than 0, when the external allocator raises,
  \<open>cupy_malloc\<close> propagates that error unchanged and leaves the map as it was. The
  propagation fails: with the bump allocator, a request of 8192 bytes makes the allocator
  raise \<open>OutOfMemoryError\<close> inside the body, and \<open>cupy_malloc\<close> returns the null address
  to its caller, with no error.
\<close>

theorem cupy_malloc_alloc_raises_counterexample:
  "(8192 :: 64 word) \<noteq> 0
   \<and> bump_alloc (allocator sample_world) 8192
       = (Inl (OutOfMemoryError ''out of memory''), 4096)
   \<and> fst (cupy_malloc_body bump_alloc 8192 (sample_world, MemoryManager_init))
       = Inl (OutOfMemoryError ''out of memory'')
   \<and> fst (cupy_malloc bump_alloc 8192 (sample_world, MemoryManager_init)) = 0"
  by (simp add: cupy_malloc_def cupy_malloc_body_def no_except_def memory_alloc_def
        bump_alloc_def sample_world_def)

text \<open>
  C10, amended: for a size other than 0, when the external allocator raises,
  \<open>cupy_malloc\<close> does not retry and does not recover: the allocator was called once,
  the map is the one from before the call, and the call returns the null address; the
  error does not reach the caller.
\<close>

theorem cupy_malloc_alloc_raises:
  assumes "n \<noteq> 0" and "alloc (allocator w) n = (Inl e, a')"
  shows "cupy_malloc alloc n (w, mm) =
           (0, (w\<lparr>events := events w @ [AllocCall n], allocator := a'\<rparr>, mm))"
  using assms
  by (simp add: cupy_malloc_def cupy_malloc_body_def no_except_def memory_alloc_def log_def)

theorem cupy_malloc_alloc_raises_witness:
  "(8192 :: 64 word) \<noteq> 0
   \<and> bump_alloc (allocator sample_world) 8192
       = (Inl (OutOfMemoryError ''out of memory''), 4096)
   \<and> cupy_malloc bump_alloc 8192 (sample_world, MemoryManager_init)
       = (0, (sample_world\<lparr>events := [AllocCall 8192]\<rparr>, MemoryManager_init))"
proof -
  have n: "(8192 :: 64 word) \<noteq> 0" by simp
  have a: "bump_alloc (allocator sample_world) 8192
             = (Inl (OutOfMemoryError ''out of memory''), 4096)"
    by (simp add: sample_world_def bump_alloc_def)
  show ?thesis
    using n a cupy_malloc_alloc_raises [where alloc = bump_alloc and w = sample_world
            and mm = MemoryManager_init, OF n a]
    by (simp add: sample_world_def)
qed

text \<open>
  C1. \<open>cupy_free\<close> with the null address returns with the world and the map unchanged.
  \<open>cupy_free\<close> with a non-null address that is not a key of the map returns too, with
  the world and the map unchanged: the \<open>KeyError\<close> of the deletion is discarded inside
  the function and nothing is raised to the caller.
\<close>

theorem cupy_free_null_or_unknown:
  "cupy_free 0 (w, mm) = ((), (w, mm))
   \<and> (p \<noteq> 0 \<and> p \<notin> dom (memory mm) \<longrightarrow> cupy_free p (w, mm) = ((), (w, mm)))"
  by (auto simp: cupy_free_def cupy_free_body_def no_except_def domIff)

theorem cupy_free_null_or_unknown_witness:
  "cupy_free 0 (sample_world, MemoryManager_init) = ((), (sample_world, MemoryManager_init))
   \<and> (1 :: 64 word) \<noteq> 0 \<and> 1 \<notin> dom (memory MemoryManager_init)
   \<and> cupy_free 1 (sample_world, MemoryManager_init)
       = ((), (sample_world, MemoryManager_init))
   \<and> fst (cupy_free_body 1 (sample_world, MemoryManager_init)) = Inl (KeyError 1)"
  using cupy_free_null_or_unknown [of sample_world MemoryManager_init 1]
  by (simp add: MemoryManager_init_def cupy_free_body_def)

subsection \<open>Every address handed out is accounted for\<close>

lemma call_is_cupy_malloc:
  "snd (call alloc (Malloc n) s) = snd (cupy_malloc alloc n s)
   \<and> fst (cupy_malloc alloc n s)
       = (case fst (call alloc (Malloc n) s) of Inr (Address p) \<Rightarrow> p | _ \<Rightarrow> 0)"
proof -
  obtain r s' where "cupy_malloc_body alloc n s = (r, s')"
    by (metis prod.exhaust)
  then show ?thesis
    by (cases r) (simp_all add: call_def cupy_malloc_def no_except_def)
qed

lemma call_is_cupy_free:
  "snd (call alloc (Free p) s) = snd (cupy_free p s)"
proof -
  obtain r s' where "cupy_free_body p s = (r, s')"
    by (metis prod.exhaust)
  then show ?thesis
    by (cases r) (simp_all add: call_def cupy_free_def no_except_def)
qed

lemma in_returned_Cons:
  "p \<in> set (returned ((c, r) # tr))
     \<longleftrightarrow> (\<exists>n. c = Malloc n \<and> (r = Inr (Address p) \<or> (p = 0 \<and> (\<exists>e. r = Inl e))))
         \<or> p \<in> set (returned tr)"
  by (auto split: callback.splits sum.splits answer.splits)

lemma in_freed_Cons:
  "p \<in> set (freed ((c, r) # tr))
     \<longleftrightarrow> (c = Free p \<and> (\<exists>a. r = Inr a)) \<or> p \<in> set (freed tr)"
  by (auto split: callback.splits sum.splits)

lemma call_keeps_or_frees:
  assumes "call alloc c (w, mm) = (r, (w', mm'))" and "p \<in> dom (memory mm)"
  shows "p \<in> dom (memory mm') \<or> (c = Free p \<and> r = Inr Nothing)"
  using assms
  by (cases c)
     (auto simp: call_def cupy_malloc_body_def cupy_free_body_def
           split: if_splits prod.splits sum.splits option.splits)

lemma call_malloc_enters:
  assumes "call alloc (Malloc n) (w, mm) = (Inr (Address p), (w', mm'))" and "p \<noteq> 0"
  shows "p \<in> dom (memory mm')"
  using assms
  by (auto simp: call_def cupy_malloc_body_def split: if_splits prod.splits sum.splits)

lemma run_keeps_or_frees:
  "run alloc cs (w, mm) = (tr, (w', mm')) \<Longrightarrow> p \<in> dom (memory mm)
     \<Longrightarrow> p \<in> dom (memory mm') \<or> p \<in> set (freed tr)"
proof (induction cs arbitrary: w mm tr)
  case Nil
  then show ?case by simp
next
  case (Cons c cs)
  obtain r w1 mm1 where c: "call alloc c (w, mm) = (r, (w1, mm1))"
    by (metis prod.exhaust)
  obtain tr1 where r: "run alloc cs (w1, mm1) = (tr1, (w', mm'))" and tr: "tr = (c, r) # tr1"
    using Cons.prems(1) c by (auto split: prod.splits)
  from call_keeps_or_frees [OF c Cons.prems(2)]
  show ?case
  proof
    assume "p \<in> dom (memory mm1)"
    from Cons.IH [OF r this] show ?thesis
      unfolding tr in_freed_Cons by blast
  next
    assume "c = Free p \<and> r = Inr Nothing"
    then show ?thesis
      unfolding tr in_freed_Cons by blast
  qed
qed

lemma run_returned_live_or_freed:
  "run alloc cs (w, mm) = (tr, (w', mm')) \<Longrightarrow> p \<in> set (returned tr) \<Longrightarrow> p \<noteq> 0
     \<Longrightarrow> p \<in> dom (memory mm') \<or> p \<in> set (freed tr)"
proof (induction cs arbitrary: w mm tr)
  case Nil
  then show ?case by simp
next
  case (Cons c cs)
  obtain r w1 mm1 where c: "call alloc c (w, mm) = (r, (w1, mm1))"
    by (metis prod.exhaust)
  obtain tr1 where r: "run alloc cs (w1, mm1) = (tr1, (w', mm'))" and tr: "tr = (c, r) # tr1"
    using Cons.prems(1) c by (auto split: prod.splits)
  from Cons.prems(2) Cons.prems(3) consider n where "c = Malloc n" "r = Inr (Address p)"
    | "p \<in> set (returned tr1)"
    unfolding tr in_returned_Cons by blast
  then show ?case
  proof cases
    case 1
    with c Cons.prems(3) have "p \<in> dom (memory mm1)"
      by (auto dest: call_malloc_enters)
    from run_keeps_or_frees [OF r this] show ?thesis
      unfolding tr in_freed_Cons by blast
  next
    case 2
    from Cons.IH [OF r this Cons.prems(3)] show ?thesis
      unfolding tr in_freed_Cons by blast
  qed
qed

text \<open>
  C7, as the spec has it: after any sequence of callback calls on one manager, every
  address \<open>cupy_malloc\<close> returned is a key of the map or was removed by a call of
  \<open>cupy_free\<close> with that address. It fails for the null address: a single
  \<open>cupy_malloc\<close> of size 0 on a new manager returns 0, which is not a key of the map,
  and \<open>cupy_free\<close> was not called at all.
\<close>

theorem returned_null_counterexample:
  "returned (fst (run bump_alloc [Malloc 0] (sample_world, MemoryManager_init)))
     = [0]
   \<and> memory (snd (snd (run bump_alloc [Malloc 0]
               (sample_world, MemoryManager_init)))) 0 = None
   \<and> freed (fst (run bump_alloc [Malloc 0] (sample_world, MemoryManager_init)))
       = []"
  by (simp add: call_def cupy_malloc_body_def MemoryManager_init_def)

text \<open>
  C7, amended: after any sequence of callback calls on one manager, every non-null
  address \<open>cupy_malloc\<close> returned is a key of the map or \<open>cupy_free\<close> was called with
  that address and returned; and a key the map had at the start is still a key unless
  \<open>cupy_free\<close> was called with it and returned: nothing else removes entries.
\<close>

theorem returned_live_or_freed:
  "(\<forall>p \<in> set (returned (fst (run alloc cs (w, mm)))). p \<noteq> 0 \<longrightarrow>
       p \<in> dom (memory (snd (snd (run alloc cs (w, mm)))))
       \<or> p \<in> set (freed (fst (run alloc cs (w, mm)))))
   \<and> (\<forall>p \<in> dom (memory mm).
       p \<in> dom (memory (snd (snd (run alloc cs (w, mm)))))
       \<or> p \<in> set (freed (fst (run alloc cs (w, mm)))))"
proof -
  obtain tr w' mm' where r: "run alloc cs (w, mm) = (tr, (w', mm'))"
    by (metis prod.exhaust)
  show ?thesis
    unfolding r fst_conv snd_conv
    using run_returned_live_or_freed [OF r] run_keeps_or_frees [OF r] by blast
qed

theorem returned_live_or_freed_witness:
  "4112 \<in> set (returned (fst (run bump_alloc
             [Malloc 16, Malloc 0, Malloc 32, Free 4096] (sample_world, MemoryManager_init))))
   \<and> (4112 :: 64 word) \<noteq> 0
   \<and> 4112 \<in> dom (memory (snd (snd (run bump_alloc
             [Malloc 16, Malloc 0, Malloc 32, Free 4096] (sample_world, MemoryManager_init)))))
   \<and> 4096 \<in> set (returned (fst (run bump_alloc
             [Malloc 16, Malloc 0, Malloc 32, Free 4096] (sample_world, MemoryManager_init))))
   \<and> (4096 :: 64 word) \<noteq> 0
   \<and> 4096 \<notin> dom (memory (snd (snd (run bump_alloc
             [Malloc 16, Malloc 0, Malloc 32, Free 4096] (sample_world, MemoryManager_init)))))
   \<and> 4096 \<in> set (freed (fst (run bump_alloc
             [Malloc 16, Malloc 0, Malloc 32, Free 4096] (sample_world, MemoryManager_init))))
   \<and> 8 \<in> dom (memory \<lparr>memory = [8 \<mapsto> \<lparr>ptr = 8, nbytes = 4\<rparr>]\<rparr>)
   \<and> 8 \<notin> dom (memory (snd (snd (run bump_alloc [Free 8]
             (sample_world, \<lparr>memory = [8 \<mapsto> \<lparr>ptr = 8, nbytes = 4\<rparr>]\<rparr>)))))
   \<and> 8 \<in> set (freed (fst (run bump_alloc [Free 8]
             (sample_world, \<lparr>memory = [8 \<mapsto> \<lparr>ptr = 8, nbytes = 4\<rparr>]\<rparr>))))"
  using returned_live_or_freed [of bump_alloc
          "[Malloc 16, Malloc 0, Malloc 32, Free 4096]" sample_world MemoryManager_init]
        returned_live_or_freed [of bump_alloc "[Free 8]" sample_world
          "\<lparr>memory = [8 \<mapsto> \<lparr>ptr = 8, nbytes = 4\<rparr>]\<rparr>"]
  by (simp add: call_def cupy_malloc_body_def cupy_free_body_def memory_alloc_def log_def
        bump_alloc_def sample_world_def MemoryManager_init_def)

subsection \<open>The entry points\<close>

lemma inj_instantiation_of: "inj instantiation_of"
proof (rule injI)
  fix a b assume "instantiation_of a = instantiation_of b"
  then show "a = b" by (cases a; cases b; simp)
qed

lemma surj_instantiation_of: "surj instantiation_of"
proof -
  define tag_of where "tag_of = (\<lambda>y. case y of
      fp16 \<Rightarrow> float16
    | generic c \<Rightarrow> (case c of
        cpy_byte \<Rightarrow> int8 | cpy_ubyte \<Rightarrow> uint8 | cpy_short \<Rightarrow> int16 | cpy_ushort \<Rightarrow> uint16
      | cpy_int \<Rightarrow> int32 | cpy_uint \<Rightarrow> uint32 | cpy_long \<Rightarrow> int64 | cpy_ulong \<Rightarrow> uint64
      | cpy_float \<Rightarrow> float32 | cpy_double \<Rightarrow> float64
      | cpy_complex64 \<Rightarrow> complex64 | cpy_complex128 \<Rightarrow> complex128 | cpy_bool \<Rightarrow> bool))"
  have "instantiation_of (tag_of y) = y" for y
  proof (cases y)
    case (generic c)
    then show ?thesis by (cases c) (simp_all add: tag_of_def)
  next
    case fp16
    then show ?thesis by (simp add: tag_of_def)
  qed
  then show ?thesis by (rule surjI)
qed

lemma sort_dispatch_tag:
  "sort_dispatch X (numpy t) d k shp strm mem w
     = call_native X (Sort (instantiation_of t) d k shp strm) mem w"
  by (cases t) (simp_all add: sort_dispatch_def)

lemma lexsort_dispatch_tag:
  "lexsort_dispatch X (numpy t) i ks kk n strm mem w
     = call_native X (Lexsort (instantiation_of t) i ks kk n strm) mem w"
  by (cases t) (simp_all add: lexsort_dispatch_def)

lemma argsort_dispatch_tag:
  "argsort_dispatch X (numpy t) i d k shp strm mem w
     = call_native X (Argsort (instantiation_of t) i d k shp strm) mem w"
  by (cases t) (simp_all add: argsort_dispatch_def)

lemma fp16_check_other: "dtype \<noteq> numpy float16 \<Longrightarrow> fp16_check X dtype w = (Inr (), w)"
  by (simp add: fp16_check_def)

lemma fp16_check_rejects:
  "compute_capability X < 53 \<or> runtime_version X < 9020 \<Longrightarrow>
   fp16_check X (numpy float16) w =
     (Inl fp16_unsupported,
      w\<lparr>events := events w @
           (if compute_capability X < 53 then [CapabilityQuery]
            else [CapabilityQuery, RuntimeVersionQuery])\<rparr>)"
  by (auto simp: fp16_check_def get_compute_capability_def runtimeGetVersion_def log_def)

lemma fp16_check_accepts:
  "53 \<le> compute_capability X \<and> 9020 \<le> runtime_version X \<Longrightarrow>
   fp16_check X (numpy float16) w =
     (Inr (), w\<lparr>events := events w @ [CapabilityQuery, RuntimeVersionQuery]\<rparr>)"
  by (simp add: fp16_check_def get_compute_capability_def runtimeGetVersion_def log_def)

lemma fp16_check_passed:
  assumes "t = float16 \<longrightarrow> 53 \<le> compute_capability X \<and> 9020 \<le> runtime_version X"
  shows "fp16_check X (numpy t) (w\<lparr>events := events w @ [StreamQuery]\<rparr>) =
     (Inr (),
      w\<lparr>events := events w @
           (if t = float16 then [StreamQuery, CapabilityQuery, RuntimeVersionQuery]
            else [StreamQuery])\<rparr>)"
proof (cases "t = float16")
  case True
  with assms show ?thesis by (simp add: fp16_check_accepts)
next
  case False
  then show ?thesis by (simp add: fp16_check_other)
qed

text \<open>
  C2. For each of the fourteen tags the chain of \<open>sort\<close>, of \<open>lexsort\<close> and of
  \<open>argsort\<close> logs and runs the native routine of the instantiation that stands for
  that tag, with the arguments of the call and the manager, and the error of the routine,
  if any, is the error of the chain; the table from tags to instantiations is a
  bijection: no two tags share an instantiation and no tag is served by the
  instantiation of another kind or width. The entry points do the same with the stream
  pointer and a new manager: for every tag other than \<open>float16\<close> after the stream query
  only, and for \<open>float16\<close>, when the device and the toolkit support it, after the stream
  query and the two capability queries.
\<close>

theorem dispatch_exact:
  "bij instantiation_of
   \<and> sort_dispatch X (numpy t) d k shp strm mem w
       = (case native X (Sort (instantiation_of t) d k shp strm) mem
                 (w\<lparr>events := events w
                      @ [NativeCall (Sort (instantiation_of t) d k shp strm)]\<rparr>) of
            (None, w') \<Rightarrow> (Inr (), w')
          | (Some e, w') \<Rightarrow> (Inl e, w'))
   \<and> lexsort_dispatch X (numpy t) i ks kk n strm mem w
       = (case native X (Lexsort (instantiation_of t) i ks kk n strm) mem
                 (w\<lparr>events := events w
                      @ [NativeCall (Lexsort (instantiation_of t) i ks kk n strm)]\<rparr>) of
            (None, w') \<Rightarrow> (Inr (), w')
          | (Some e, w') \<Rightarrow> (Inl e, w'))
   \<and> argsort_dispatch X (numpy t) i d k shp strm mem w
       = (case native X (Argsort (instantiation_of t) i d k shp strm) mem
                 (w\<lparr>events := events w
                      @ [NativeCall (Argsort (instantiation_of t) i d k shp strm)]\<rparr>) of
            (None, w') \<Rightarrow> (Inr (), w')
          | (Some e, w') \<Rightarrow> (Inl e, w'))
   \<and> ((t = float16 \<longrightarrow> 53 \<le> compute_capability X \<and> 9020 \<le> runtime_version X) \<longrightarrow>
        sort_thrust X (numpy t) d k shp w
          = (case native X (Sort (instantiation_of t) d k shp (current_stream_ptr X))
                   MemoryManager_init
                   (w\<lparr>events := events w
                        @ (if t = float16
                           then [StreamQuery, CapabilityQuery, RuntimeVersionQuery]
                           else [StreamQuery])
                        @ [NativeCall
                             (Sort (instantiation_of t) d k shp (current_stream_ptr X))]\<rparr>) of
               (None, w') \<Rightarrow> (Inr (), w')
             | (Some e, w') \<Rightarrow> (Inl e, w'))
        \<and> lexsort X (numpy t) i ks kk n w
          = (case native X (Lexsort (instantiation_of t) i ks kk n (current_stream_ptr X))
                   MemoryManager_init
                   (w\<lparr>events := events w
                        @ (if t = float16
                           then [StreamQuery, CapabilityQuery, RuntimeVersionQuery]
                           else [StreamQuery])
                        @ [NativeCall
                             (Lexsort (instantiation_of t) i ks kk n (current_stream_ptr X))]\<rparr>) of
               (None, w') \<Rightarrow> (Inr (), w')
             | (Some e, w') \<Rightarrow> (Inl e, w'))
        \<and> argsort X (numpy t) i d k shp w
          = (case native X (Argsort (instantiation_of t) i d k shp (current_stream_ptr X))
                   MemoryManager_init
                   (w\<lparr>events := events w
                        @ (if t = float16
                           then [StreamQuery, CapabilityQuery, RuntimeVersionQuery]
                           else [StreamQuery])
                        @ [NativeCall
                             (Argsort (instantiation_of t) i d k shp (current_stream_ptr X))]\<rparr>) of
               (None, w') \<Rightarrow> (Inr (), w')
             | (Some e, w') \<Rightarrow> (Inl e, w')))"
proof (intro conjI impI)
  show "bij instantiation_of"
    using inj_instantiation_of surj_instantiation_of by (rule bijI)
  show "sort_dispatch X (numpy t) d k shp strm mem w
       = (case native X (Sort (instantiation_of t) d k shp strm) mem
                 (w\<lparr>events := events w
                      @ [NativeCall (Sort (instantiation_of t) d k shp strm)]\<rparr>) of
            (None, w') \<Rightarrow> (Inr (), w')
          | (Some e, w') \<Rightarrow> (Inl e, w'))"
    by (simp add: sort_dispatch_tag call_native_def log_def)
  show "lexsort_dispatch X (numpy t) i ks kk n strm mem w
       = (case native X (Lexsort (instantiation_of t) i ks kk n strm) mem
                 (w\<lparr>events := events w
                      @ [NativeCall (Lexsort (instantiation_of t) i ks kk n strm)]\<rparr>) of
            (None, w') \<Rightarrow> (Inr (), w')
          | (Some e, w') \<Rightarrow> (Inl e, w'))"
    by (simp add: lexsort_dispatch_tag call_native_def log_def)
  show "argsort_dispatch X (numpy t) i d k shp strm mem w
       = (case native X (Argsort (instantiation_of t) i d k shp strm) mem
                 (w\<lparr>events := events w
                      @ [NativeCall (Argsort (instantiation_of t) i d k shp strm)]\<rparr>) of
            (None, w') \<Rightarrow> (Inr (), w')
          | (Some e, w') \<Rightarrow> (Inl e, w'))"
    by (simp add: argsort_dispatch_tag call_native_def log_def)
next
  assume h: "t = float16 \<longrightarrow> 53 \<le> compute_capability X \<and> 9020 \<le> runtime_version X"
  note c = fp16_check_passed [OF h, of w]
  show "sort_thrust X (numpy t) d k shp w
          = (case native X (Sort (instantiation_of t) d k shp (current_stream_ptr X))
                   MemoryManager_init
                   (w\<lparr>events := events w
                        @ (if t = float16
                           then [StreamQuery, CapabilityQuery, RuntimeVersionQuery]
                           else [StreamQuery])
                        @ [NativeCall
                             (Sort (instantiation_of t) d k shp (current_stream_ptr X))]\<rparr>) of
               (None, w') \<Rightarrow> (Inr (), w')
             | (Some e, w') \<Rightarrow> (Inl e, w'))"
    by (simp add: sort_thrust_def get_current_stream_ptr_def log_def c sort_dispatch_tag
          call_native_def)
  show "lexsort X (numpy t) i ks kk n w
          = (case native X (Lexsort (instantiation_of t) i ks kk n (current_stream_ptr X))
                   MemoryManager_init
                   (w\<lparr>events := events w
                        @ (if t = float16
                           then [StreamQuery, CapabilityQuery, RuntimeVersionQuery]
                           else [StreamQuery])
                        @ [NativeCall
                             (Lexsort (instantiation_of t) i ks kk n (current_stream_ptr X))]\<rparr>) of
               (None, w') \<Rightarrow> (Inr (), w')
             | (Some e, w') \<Rightarrow> (Inl e, w'))"
    by (simp add: lexsort_def get_current_stream_ptr_def log_def c lexsort_dispatch_tag
          call_native_def)
  show "argsort X (numpy t) i d k shp w
          = (case native X (Argsort (instantiation_of t) i d k shp (current_stream_ptr X))
                   MemoryManager_init
                   (w\<lparr>events := events w
                        @ (if t = float16
                           then [StreamQuery, CapabilityQuery, RuntimeVersionQuery]
                           else [StreamQuery])
                        @ [NativeCall
                             (Argsort (instantiation_of t) i d k shp (current_stream_ptr X))]\<rparr>) of
               (None, w') \<Rightarrow> (Inr (), w')
             | (Some e, w') \<Rightarrow> (Inl e, w'))"
    by (simp add: argsort_def get_current_stream_ptr_def log_def c argsort_dispatch_tag
          call_native_def)
qed

theorem dispatch_exact_witness:
  "53 \<le> compute_capability (sample_externals 53 9020)
   \<and> 9020 \<le> runtime_version (sample_externals 53 9020)
   \<and> sort_thrust (sample_externals 53 9020) (numpy float16) 2 3 [4] sample_world
       = (Inr (),
          \<lparr>events = [StreamQuery, CapabilityQuery, RuntimeVersionQuery,
                     NativeCall (Sort fp16 2 3 [4] 7), AllocCall 64],
           allocator = 4160\<rparr>)
   \<and> lexsort (sample_externals 53 9020) (numpy float16) 1 2 2 3 sample_world
       = (Inr (),
          \<lparr>events = [StreamQuery, CapabilityQuery, RuntimeVersionQuery,
                     NativeCall (Lexsort fp16 1 2 2 3 7), AllocCall 64],
           allocator = 4160\<rparr>)
   \<and> argsort (sample_externals 53 9020) (numpy float16) 1 2 3 [4] sample_world
       = (Inr (),
          \<lparr>events = [StreamQuery, CapabilityQuery, RuntimeVersionQuery,
                     NativeCall (Argsort fp16 1 2 3 [4] 7), AllocCall 64],
           allocator = 4160\<rparr>)
   \<and> uint8 \<noteq> float16
   \<and> sort_thrust (sample_externals 30 8000) (numpy uint8) 2 3 [4] sample_world
       = (Inr (),
          \<lparr>events = [StreamQuery, NativeCall (Sort (generic cpy_ubyte) 2 3 [4] 7),
                     AllocCall 64],
           allocator = 4160\<rparr>)
   \<and> sort_dispatch (sample_externals 30 8000) (numpy int64) 2 3 [4] 9 MemoryManager_init
         sample_world
       = (Inr (),
          \<lparr>events = [NativeCall (Sort (generic cpy_long) 2 3 [4] 9), AllocCall 64],
           allocator = 4160\<rparr>)
   \<and> complex64 \<noteq> float16
   \<and> argsort ((sample_externals 30 8000)\<lparr>native := failing_native\<rparr>) (numpy complex64)
         1 2 3 [4] sample_world
       = (Inl (MemoryError ''std::bad_alloc''),
          \<lparr>events = [StreamQuery, NativeCall (Argsort (generic cpy_complex64) 1 2 3 [4] 7)],
           allocator = 4096\<rparr>)"
  using dispatch_exact [where X = "sample_externals 53 9020" and w = sample_world
          and d = 2 and k = 3 and shp = "[4]" and i = 1 and ks = 2 and kk = 2 and n = 3
          and t = float16 and strm = 9 and mem = MemoryManager_init]
        dispatch_exact [where X = "sample_externals 30 8000" and w = sample_world
          and d = 2 and k = 3 and shp = "[4]" and i = 1 and ks = 2 and kk = 2 and n = 3
          and t = uint8 and strm = 9 and mem = MemoryManager_init]
        dispatch_exact [where X = "sample_externals 30 8000" and w = sample_world
          and d = 2 and k = 3 and shp = "[4]" and i = 1 and ks = 2 and kk = 2 and n = 3
          and t = int64 and strm = 9 and mem = MemoryManager_init]
        dispatch_exact [where X = "(sample_externals 30 8000)\<lparr>native := failing_native\<rparr>"
          and w = sample_world
          and d = 2 and k = 3 and shp = "[4]" and i = 1 and ks = 2 and kk = 2 and n = 3
          and t = complex64 and strm = 9 and mem = MemoryManager_init]
  by (simp add: sample_externals_def sample_world_def failing_native_def
        scratch_native_def call_def cupy_malloc_body_def cupy_free_body_def memory_alloc_def
        log_def bump_alloc_def MemoryManager_init_def)

text \<open>
  C3. With the tag \<open>float16\<close>, when the compute capability is below 53 or the runtime
  version is below 9020, each of \<open>sort\<close>, \<open>lexsort\<close> and \<open>argsort\<close> raises
  \<open>RuntimeError\<close> with the message that the GPU or the CUDA Toolkit does not support
  fp16, having made the stream query and the capability queries only: no native call and
  no allocation. With any other descriptor the check makes no query at all, and with any
  other tag the whole call is the stream query followed by the native call.
\<close>

theorem fp16_check_guards:
  "(compute_capability X < 53 \<or> runtime_version X < 9020 \<longrightarrow>
      sort_thrust X (numpy float16) d k shp w
        = (Inl (RuntimeError ''either the GPU or the CUDA Toolkit does not support fp16''),
           w\<lparr>events := events w @
                (if compute_capability X < 53 then [StreamQuery, CapabilityQuery]
                 else [StreamQuery, CapabilityQuery, RuntimeVersionQuery])\<rparr>)
      \<and> lexsort X (numpy float16) i ks kk n w
        = (Inl (RuntimeError ''either the GPU or the CUDA Toolkit does not support fp16''),
           w\<lparr>events := events w @
                (if compute_capability X < 53 then [StreamQuery, CapabilityQuery]
                 else [StreamQuery, CapabilityQuery, RuntimeVersionQuery])\<rparr>)
      \<and> argsort X (numpy float16) i d k shp w
        = (Inl (RuntimeError ''either the GPU or the CUDA Toolkit does not support fp16''),
           w\<lparr>events := events w @
                (if compute_capability X < 53 then [StreamQuery, CapabilityQuery]
                 else [StreamQuery, CapabilityQuery, RuntimeVersionQuery])\<rparr>))
   \<and> (dtype \<noteq> numpy float16 \<longrightarrow> fp16_check X dtype w = (Inr (), w))
   \<and> (t \<noteq> float16 \<longrightarrow>
        sort_thrust X (numpy t) d k shp w
          = call_native X (Sort (instantiation_of t) d k shp (current_stream_ptr X))
              MemoryManager_init (w\<lparr>events := events w @ [StreamQuery]\<rparr>)
        \<and> lexsort X (numpy t) i ks kk n w
          = call_native X (Lexsort (instantiation_of t) i ks kk n (current_stream_ptr X))
              MemoryManager_init (w\<lparr>events := events w @ [StreamQuery]\<rparr>)
        \<and> argsort X (numpy t) i d k shp w
          = call_native X (Argsort (instantiation_of t) i d k shp (current_stream_ptr X))
              MemoryManager_init (w\<lparr>events := events w @ [StreamQuery]\<rparr>))"
proof (intro conjI impI)
  assume g: "compute_capability X < 53 \<or> runtime_version X < 9020"
  show "sort_thrust X (numpy float16) d k shp w
        = (Inl (RuntimeError ''either the GPU or the CUDA Toolkit does not support fp16''),
           w\<lparr>events := events w @
                (if compute_capability X < 53 then [StreamQuery, CapabilityQuery]
                 else [StreamQuery, CapabilityQuery, RuntimeVersionQuery])\<rparr>)"
    using fp16_check_rejects [OF g, of "log StreamQuery w"]
    by (simp add: sort_thrust_def get_current_stream_ptr_def fp16_unsupported_def log_def)
  show "lexsort X (numpy float16) i ks kk n w
        = (Inl (RuntimeError ''either the GPU or the CUDA Toolkit does not support fp16''),
           w\<lparr>events := events w @
                (if compute_capability X < 53 then [StreamQuery, CapabilityQuery]
                 else [StreamQuery, CapabilityQuery, RuntimeVersionQuery])\<rparr>)"
    using fp16_check_rejects [OF g, of "log StreamQuery w"]
    by (simp add: lexsort_def get_current_stream_ptr_def fp16_unsupported_def log_def)
  show "argsort X (numpy float16) i d k shp w
        = (Inl (RuntimeError ''either the GPU or the CUDA Toolkit does not support fp16''),
           w\<lparr>events := events w @
                (if compute_capability X < 53 then [StreamQuery, CapabilityQuery]
                 else [StreamQuery, CapabilityQuery, RuntimeVersionQuery])\<rparr>)"
    using fp16_check_rejects [OF g, of "log StreamQuery w"]
    by (simp add: argsort_def get_current_stream_ptr_def fp16_unsupported_def log_def)
next
  assume "dtype \<noteq> numpy float16"
  then show "fp16_check X dtype w = (Inr (), w)" by (rule fp16_check_other)
next
  assume t: "t \<noteq> float16"
  then have c: "fp16_check X (numpy t) w' = (Inr (), w')" for w'
    by (simp add: fp16_check_other)
  show "sort_thrust X (numpy t) d k shp w
          = call_native X (Sort (instantiation_of t) d k shp (current_stream_ptr X))
              MemoryManager_init (w\<lparr>events := events w @ [StreamQuery]\<rparr>)"
    by (simp add: sort_thrust_def get_current_stream_ptr_def c sort_dispatch_tag log_def)
  show "lexsort X (numpy t) i ks kk n w
          = call_native X (Lexsort (instantiation_of t) i ks kk n (current_stream_ptr X))
              MemoryManager_init (w\<lparr>events := events w @ [StreamQuery]\<rparr>)"
    by (simp add: lexsort_def get_current_stream_ptr_def c lexsort_dispatch_tag log_def)
  show "argsort X (numpy t) i d k shp w
          = call_native X (Argsort (instantiation_of t) i d k shp (current_stream_ptr X))
              MemoryManager_init (w\<lparr>events := events w @ [StreamQuery]\<rparr>)"
    by (simp add: argsort_def get_current_stream_ptr_def c argsort_dispatch_tag log_def)
qed

theorem fp16_check_guards_witness:
  "compute_capability (sample_externals 52 9020) < 53
   \<and> sort_thrust (sample_externals 52 9020) (numpy float16) 2 3 [4] sample_world
       = (Inl (RuntimeError ''either the GPU or the CUDA Toolkit does not support fp16''),
          sample_world\<lparr>events := [StreamQuery, CapabilityQuery]\<rparr>)
   \<and> runtime_version (sample_externals 53 9010) < 9020
   \<and> lexsort (sample_externals 53 9010) (numpy float16) 1 2 2 3 sample_world
       = (Inl (RuntimeError ''either the GPU or the CUDA Toolkit does not support fp16''),
          sample_world\<lparr>events := [StreamQuery, CapabilityQuery, RuntimeVersionQuery]\<rparr>)
   \<and> unsupported ''object'' \<noteq> numpy float16
   \<and> fp16_check (sample_externals 52 9020) (unsupported ''object'') sample_world
       = (Inr (), sample_world)
   \<and> int32 \<noteq> float16
   \<and> argsort (sample_externals 52 9020) (numpy int32) 1 2 3 [4] sample_world
       = (Inr (),
          \<lparr>events = [StreamQuery, NativeCall (Argsort (generic cpy_int) 1 2 3 [4] 7),
                     AllocCall 64],
           allocator = 4160\<rparr>)"
  using fp16_check_guards [where X = "sample_externals 52 9020" and w = sample_world
          and d = 2 and k = 3 and shp = "[4]" and i = 1 and ks = 2 and kk = 2 and n = 3
          and dtype = "unsupported ''object''" and t = int32]
        fp16_check_guards [where X = "sample_externals 53 9010" and w = sample_world
          and d = 2 and k = 3 and shp = "[4]" and i = 1 and ks = 2 and kk = 2 and n = 3
          and dtype = "unsupported ''object''" and t = int32]
  by (simp add: sample_externals_def sample_world_def call_native_def log_def
        scratch_native_def call_def cupy_malloc_body_def cupy_free_body_def memory_alloc_def
        bump_alloc_def MemoryManager_init_def)

text \<open>
  C4. With a descriptor that is none of the fourteen tags, \<open>sort\<close> and \<open>argsort\<close>
  raise \<open>NotImplementedError\<close> and \<open>lexsort\<close> raises \<open>TypeError\<close>, a different kind of
  error; all the call has done by then is the stream query: no native routine was
  called, so nothing was allocated through the manager, and the allocator's state is the
  one from before the call.
\<close>

theorem unsupported_dtype:
  "sort_thrust X (unsupported s) d k shp w
     = (Inl (NotImplementedError
               (''Sorting arrays with dtype '' @ [CHR 0x27] @ s @ [CHR 0x27]
                  @ '' is not supported'')),
        w\<lparr>events := events w @ [StreamQuery]\<rparr>)
   \<and> argsort X (unsupported s) i d k shp w
     = (Inl (NotImplementedError
               (''Sorting arrays with dtype '' @ [CHR 0x27] @ s @ [CHR 0x27]
                  @ '' is not supported'')),
        w\<lparr>events := events w @ [StreamQuery]\<rparr>)
   \<and> lexsort X (unsupported s) i ks kk n w
     = (Inl (TypeError
               (''Sorting keys with dtype '' @ [CHR 0x27] @ s @ [CHR 0x27]
                  @ '' is not supported'')),
        w\<lparr>events := events w @ [StreamQuery]\<rparr>)
   \<and> NotImplementedError m \<noteq> TypeError m'
   \<and> allocator (snd (sort_thrust X (unsupported s) d k shp w)) = allocator w
   \<and> allocator (snd (argsort X (unsupported s) i d k shp w)) = allocator w
   \<and> allocator (snd (lexsort X (unsupported s) i ks kk n w)) = allocator w"
  by (simp add: sort_thrust_def argsort_def lexsort_def get_current_stream_ptr_def
        fp16_check_def sort_dispatch_def argsort_dispatch_def lexsort_dispatch_def
        format_dtype_def quoted_def log_def)

text \<open>
  C9. \<open>get_build_version\<close> never raises, leaves the world as it is, and returns the
  same integer whatever the world it is called in: any two calls agree.
\<close>

theorem get_build_version_const:
  "\<exists>v. \<forall>w. get_build_version X w = (Inr v, w)"
  by (simp add: get_build_version_def)

end
